theory Spec2Isabelle
  imports Main
begin

section \<open>JavaScript values\<close>

text \<open>
  The path resolver of \<^verbatim>\<open>src/getOrElse.ts\<close> reads values of type \<^verbatim>\<open>any\<close>. A value is a
  primitive or an object; an object has an internal class (ordinary, callable, or the
  wrapper of a primitive), its own data properties in definition order, and a prototype.
  \<^verbatim>\<open>typeof\<close>, the \<^verbatim>\<open>in\<close> operator and property access \<^verbatim>\<open>o[k]\<close> are the only operations
  the resolver applies to a value, and they are modelled below as ECMAScript defines them
  for data properties. An array is an object that owns its indices and \<^verbatim>\<open>length\<close>.
  Numbers are carried around and never computed with; the model has the integer ones.
  Accessor properties and proxies, whose reads run user code, are outside the model.
\<close>

datatype objclass =
  Ordinary | Callable | BooleanData bool | NumberData int | StringData string

datatype jsval =
  Undefined
  | Null
  | Bool bool
  | Num int
  | Str string
  | Obj objclass "(string \<times> jsval) list" jsval

datatype error = TypeError

text \<open>\<^verbatim>\<open>typeof v\<close>: \<^verbatim>\<open>null\<close> is an \<^verbatim>\<open>'object'\<close>, and a callable object is a \<^verbatim>\<open>'function'\<close>.\<close>

fun typeof :: "jsval \<Rightarrow> string" where
  "typeof Undefined = ''undefined''"
| "typeof Null = ''object''"
| "typeof (Bool b) = ''boolean''"
| "typeof (Num n) = ''number''"
| "typeof (Str s) = ''string''"
| "typeof (Obj Callable ps pr) = ''function''"
| "typeof (Obj c ps pr) = ''object''"

text \<open>Truthiness, for the operands of \<^verbatim>\<open>&&\<close> and of the conditional operator.\<close>

fun truthy :: "jsval \<Rightarrow> bool" where
  "truthy Undefined = False"
| "truthy Null = False"
| "truthy (Bool b) = b"
| "truthy (Num n) = (n \<noteq> 0)"
| "truthy (Str s) = (s \<noteq> [])"
| "truthy (Obj c ps pr) = True"

text \<open>
  The property named \<open>k\<close> of an object, its own or inherited along the prototype chain;
  \<open>None\<close> when neither the object nor any prototype has it. A property that is present
  with the value \<^verbatim>\<open>undefined\<close> is \<open>Some Undefined\<close>.
\<close>

fun lookup :: "jsval \<Rightarrow> string \<Rightarrow> jsval option" where
  "lookup (Obj c ps pr) k = (case map_of ps k of Some v \<Rightarrow> Some v | None \<Rightarrow> lookup pr k)"
| "lookup v k = None"

subsection \<open>The built-in prototypes\<close>

text \<open>
  A built-in method is a callable object. The resolver never indexes a callable (its
  \<^verbatim>\<open>typeof\<close> is \<^verbatim>\<open>'function'\<close>), so a method carries its name only. The prototypes list
  the string-keyed data properties that ECMAScript 2017 gives them; the accessor
  \<^verbatim>\<open>__proto__\<close> of \<^verbatim>\<open>Object.prototype\<close> is not a data property and is left out.
\<close>

definition native :: "string \<Rightarrow> string \<times> jsval" where
  "native name = (name, Obj Callable [(''name'', Str name)] Null)"

definition objectPrototype :: jsval where
  "objectPrototype = Obj Ordinary (map native
     [''constructor'', ''hasOwnProperty'', ''isPrototypeOf'', ''propertyIsEnumerable'',
      ''toLocaleString'', ''toString'', ''valueOf'', ''__defineGetter__'',
      ''__defineSetter__'', ''__lookupGetter__'', ''__lookupSetter__'']) Null"

definition booleanPrototype :: jsval where
  "booleanPrototype = Obj (BooleanData False) (map native
     [''constructor'', ''toString'', ''valueOf'']) objectPrototype"

definition numberPrototype :: jsval where
  "numberPrototype = Obj (NumberData 0) (map native
     [''constructor'', ''toExponential'', ''toFixed'', ''toLocaleString'', ''toPrecision'',
      ''toString'', ''valueOf'']) objectPrototype"

definition stringPrototype :: jsval where
  "stringPrototype = Obj (StringData []) ((''length'', Num 0) # map native
     [''constructor'', ''charAt'', ''charCodeAt'', ''codePointAt'', ''concat'', ''endsWith'',
      ''includes'', ''indexOf'', ''lastIndexOf'', ''localeCompare'', ''match'', ''normalize'',
      ''padEnd'', ''padStart'', ''repeat'', ''replace'', ''search'', ''slice'', ''split'', ''startsWith'', ''substring'',
      ''toLocaleLowerCase'', ''toLocaleUpperCase'', ''toLowerCase'', ''toString'',
      ''toUpperCase'', ''trim'', ''valueOf'', ''substr'', ''anchor'', ''big'', ''blink'',
      ''bold'', ''fixed'', ''fontcolor'', ''fontsize'', ''italics'', ''link'', ''small'',
      ''strike'', ''sub'', ''sup'']) objectPrototype"

text \<open>The object literal \<^verbatim>\<open>{k1: v1, ...}\<close>.\<close>

definition literal :: "(string \<times> jsval) list \<Rightarrow> jsval" where
  "literal ps = Obj Ordinary ps objectPrototype"

subsection \<open>Wrapper objects\<close>

text \<open>The decimal numeral of an array index, the key of a character of a String object.\<close>

fun decimal :: "nat \<Rightarrow> string" where
  "decimal n =
     (if n < 10 then [''0123456789'' ! n]
      else decimal (n div 10) @ [''0123456789'' ! (n mod 10)])"

declare decimal.simps [simp del]

text \<open>
  \<^verbatim>\<open>ToObject\<close>: a Boolean, Number or String is wrapped, \<^verbatim>\<open>undefined\<close> and \<^verbatim>\<open>null\<close>
  raise a TypeError, an object is itself. A String object owns one property for each
  character and \<^verbatim>\<open>length\<close>.
\<close>

fun toObject :: "jsval \<Rightarrow> error + jsval" where
  "toObject Undefined = Inl TypeError"
| "toObject Null = Inl TypeError"
| "toObject (Bool b) = Inr (Obj (BooleanData b) [] booleanPrototype)"
| "toObject (Num n) = Inr (Obj (NumberData n) [] numberPrototype)"
| "toObject (Str s) =
     Inr (Obj (StringData s)
       (map (\<lambda>i. (decimal i, Str [s ! i])) [0..<length s] @ [(''length'', Num (int (length s)))])
       stringPrototype)"
| "toObject (Obj c ps pr) = Inr (Obj c ps pr)"

text \<open>
  \<^verbatim>\<open>Object(v)\<close> called as a function: a new empty object for \<^verbatim>\<open>undefined\<close> and \<^verbatim>\<open>null\<close>,
  \<^verbatim>\<open>ToObject(v)\<close> otherwise.
\<close>

definition Object_call :: "jsval \<Rightarrow> jsval" where
  "Object_call v =
     (case v of
        Undefined \<Rightarrow> literal []
      | Null \<Rightarrow> literal []
      | _ \<Rightarrow> (case toObject v of Inr ob \<Rightarrow> ob | Inl e \<Rightarrow> literal []))"

subsection \<open>Property access and membership\<close>

text \<open>
  \<^verbatim>\<open>v[k]\<close>: a TypeError on \<^verbatim>\<open>undefined\<close> and \<^verbatim>\<open>null\<close>; otherwise the property of
  \<^verbatim>\<open>ToObject(v)\<close>, and \<^verbatim>\<open>undefined\<close> when there is none.
\<close>

definition js_get :: "jsval \<Rightarrow> string \<Rightarrow> error + jsval" where
  "js_get v k =
     (case toObject v of
        Inl e \<Rightarrow> Inl e
      | Inr ob \<Rightarrow> Inr (case lookup ob k of Some x \<Rightarrow> x | None \<Rightarrow> Undefined))"

text \<open>\<^verbatim>\<open>k in v\<close>: a TypeError unless \<open>v\<close> is an object; own or inherited otherwise.\<close>

fun js_in :: "string \<Rightarrow> jsval \<Rightarrow> error + bool" where
  "js_in k (Obj c ps pr) = Inr (lookup (Obj c ps pr) k \<noteq> None)"
| "js_in k v = Inl TypeError"

subsection \<open>String and array methods\<close>

text \<open>
  \<^verbatim>\<open>s.split('.')\<close>: the pieces between the dots, empty pieces kept; the empty string
  splits into one empty piece.
\<close>

fun split_dot :: "string \<Rightarrow> string list" where
  "split_dot [] = [[]]"
| "split_dot (c # cs) =
     (if c = CHR ''.'' then [] # split_dot cs
      else (case split_dot cs of [] \<Rightarrow> [[c]] | s # ss \<Rightarrow> (c # s) # ss))"

text \<open>
  \<^verbatim>\<open>xs.reduce(f, init)\<close>: the callback gets the accumulator, the element and its index;
  an exception of the callback ends the loop. \<open>reduce_from\<close> is the loop from index \<open>idx\<close>.
\<close>

fun reduce_from ::
  "('b \<Rightarrow> 'a \<Rightarrow> nat \<Rightarrow> error + 'b) \<Rightarrow> 'a list \<Rightarrow> nat \<Rightarrow> 'b \<Rightarrow> error + 'b" where
  "reduce_from f [] idx acc = Inr acc"
| "reduce_from f (x # xs) idx acc =
     (case f acc x idx of Inl e \<Rightarrow> Inl e | Inr acc' \<Rightarrow> reduce_from f xs (Suc idx) acc')"

definition reduce :: "('b \<Rightarrow> 'a \<Rightarrow> nat \<Rightarrow> error + 'b) \<Rightarrow> 'a list \<Rightarrow> 'b \<Rightarrow> error + 'b" where
  "reduce f xs init = reduce_from f xs 0 init"

text \<open>\<^verbatim>\<open>xs.map(f)\<close>: every element is mapped, in order; the first exception ends it.\<close>

fun map_array :: "('a \<Rightarrow> error + 'b) \<Rightarrow> 'a list \<Rightarrow> error + 'b list" where
  "map_array f [] = Inr []"
| "map_array f (x # xs) =
     (case f x of
        Inl e \<Rightarrow> Inl e
      | Inr y \<Rightarrow> (case map_array f xs of Inl e \<Rightarrow> Inl e | Inr ys \<Rightarrow> Inr (y # ys)))"

text \<open>\<^verbatim>\<open>xs.find(p)\<close>: the first element that satisfies \<open>p\<close>, \<^verbatim>\<open>undefined\<close> when none does.\<close>

definition find_array :: "(jsval \<Rightarrow> bool) \<Rightarrow> jsval list \<Rightarrow> jsval" where
  "find_array p xs = (case find p xs of Some x \<Rightarrow> x | None \<Rightarrow> Undefined)"

section \<open>The path resolver\<close>

text \<open>
  \<^verbatim>\<open>
  const isValid = (root, field, requireDefined) =>
    requireDefined ? root[field] !== undefined : field in root
  \<close>
\<close>

definition isValid :: "jsval \<Rightarrow> string \<Rightarrow> bool \<Rightarrow> error + bool" where
  "isValid root field requireDefined =
     (if requireDefined
      then (case js_get root field of Inl e \<Rightarrow> Inl e | Inr v \<Rightarrow> Inr (v \<noteq> Undefined))
      else js_in field root)"

text \<open>
  The callback of the \<^verbatim>\<open>reduce\<close> in \<^verbatim>\<open>getOrElse\<close>, closed over \<open>root\<close>, \<open>orElse\<close> and
  \<open>requireDefined\<close>:
  \<^verbatim>\<open>
  (acc, curr, idx) => {
    const ptr = idx === 0 ? root : acc
    const isObject = ptr !== null && typeof ptr === 'object'
    return isObject && isValid(ptr, curr, requireDefined) ? ptr[curr] : orElse
  }
  \<close>
  \<^verbatim>\<open>&&\<close> evaluates \<^verbatim>\<open>isValid\<close> only when \<^verbatim>\<open>isObject\<close> holds.
\<close>

definition walk_step ::
  "jsval \<Rightarrow> jsval \<Rightarrow> bool \<Rightarrow> jsval \<Rightarrow> string \<Rightarrow> nat \<Rightarrow> error + jsval" where
  "walk_step root orElse requireDefined acc curr' idx =
     (let ptr = (if idx = 0 then root else acc);
          isObject = (ptr \<noteq> Null \<and> typeof ptr = ''object'')
      in if isObject
         then (case isValid ptr curr' requireDefined of
                 Inl e \<Rightarrow> Inl e
               | Inr valid \<Rightarrow> if valid then js_get ptr curr' else Inr orElse)
         else Inr orElse)"

text \<open>
  \<^verbatim>\<open>
  const getOrElse = (root, dotPath, orElse, requireDefined = false) => {
    if (root !== null && typeof root === 'object' && dotPath === '') {
      return root
    }
    return dotPath.split('.').reduce(..., orElse)
  }
  \<close>
\<close>

definition getOrElse :: "jsval \<Rightarrow> string \<Rightarrow> jsval \<Rightarrow> bool \<Rightarrow> error + jsval" where
  "getOrElse root dotPath orElse requireDefined =
     (if root \<noteq> Null \<and> typeof root = ''object'' \<and> dotPath = []
      then Inr root
      else reduce (walk_step root orElse requireDefined) (split_dot dotPath) orElse)"

text \<open>
  The callback's first branch, \<^verbatim>\<open>ptr[curr]\<close>, taken at every segment: the pointer that
  the segments lead to from \<open>ptr\<close> when each of them is tested against a non-null
  \<^verbatim>\<open>'object'\<close> and \<^verbatim>\<open>isValid\<close> accepts it, and \<open>None\<close> as soon as the callback would take
  its other branch. It names the walks that have not failed.
\<close>

fun descend :: "bool \<Rightarrow> jsval \<Rightarrow> string list \<Rightarrow> jsval option" where
  "descend requireDefined ptr [] = Some ptr"
| "descend requireDefined ptr (k # ks) =
     (if ptr \<noteq> Null \<and> typeof ptr = ''object'' \<and> isValid ptr k requireDefined = Inr True
      then (case js_get ptr k of Inr v \<Rightarrow> descend requireDefined v ks | Inl e \<Rightarrow> None)
      else None)"

text \<open>
  \<^verbatim>\<open>
  const multiPathsGetOrElse = (root, dotPaths, orElse) => {
    const found = dotPaths
      .map(_ => getOrElse(root, _, undefined, true))
      .find(_ => _ !== undefined)
    return found !== undefined ? found : orElse
  }
  \<close>
\<close>

definition multiPathsGetOrElse :: "jsval \<Rightarrow> string list \<Rightarrow> jsval \<Rightarrow> error + jsval" where
  "multiPathsGetOrElse root dotPaths orElse =
     (case map_array (\<lambda>p. getOrElse root p Undefined True) dotPaths of
        Inl e \<Rightarrow> Inl e
      | Inr results \<Rightarrow>
          (let found = find_array (\<lambda>v. v \<noteq> Undefined) results
           in Inr (if found \<noteq> Undefined then found else orElse)))"

text \<open>
  The argument \<^verbatim>\<open>dotPath: string | string[]\<close> of the exported functions, told apart by
  \<^verbatim>\<open>Array.isArray\<close>. An omitted \<^verbatim>\<open>orElse\<close> is \<^verbatim>\<open>undefined\<close>.
\<close>

datatype dotpath = Path string | Paths "string list"

text \<open>The default export of \<^verbatim>\<open>src/getOrElse.ts\<close>.\<close>

definition getOrElse_default :: "jsval \<Rightarrow> dotpath \<Rightarrow> jsval \<Rightarrow> error + jsval" where
  "getOrElse_default root dotPath orElse =
     (case dotPath of
        Paths ps \<Rightarrow> multiPathsGetOrElse root ps orElse
      | Path p \<Rightarrow> getOrElse root p orElse False)"

definition getDefinedOrElse :: "jsval \<Rightarrow> dotpath \<Rightarrow> jsval \<Rightarrow> error + jsval" where
  "getDefinedOrElse root dotPath orElse =
     (case dotPath of
        Paths ps \<Rightarrow> multiPathsGetOrElse root ps orElse
      | Path p \<Rightarrow> getOrElse root p orElse True)"

text \<open>
  The revision of the module that adds the typed helpers tests its pointers with
  \<^verbatim>\<open>root && typeof root === 'object'\<close>, which holds for the same values as the test
  above (lemma \<open>truthy_guard\<close>); the functions above are that revision's as well. Its
  string helper is
  \<^verbatim>\<open>
  export const getStringOr = (root, dotPath, orElse = undefined): string =>
    Object(getDefinedOrElse(root, dotPath, orElse))
  \<close>
\<close>

definition getStringOr :: "jsval \<Rightarrow> dotpath \<Rightarrow> jsval \<Rightarrow> error + jsval" where
  "getStringOr root dotPath orElse =
     (case getDefinedOrElse root dotPath orElse of
        Inl e \<Rightarrow> Inl e
      | Inr v \<Rightarrow> Inr (Object_call v))"


section \<open>Properties of the operations\<close>

text \<open>The resolver's test for a structured pointer holds of the objects that are not callable.\<close>

lemma structured_iff:
  "(v \<noteq> Null \<and> typeof v = ''object'') = (\<exists>c ps pr. v = Obj c ps pr \<and> c \<noteq> Callable)"
proof (cases v)
  case (Obj c ps pr)
  then show ?thesis by (cases c) simp_all
qed simp_all

text \<open>Both revisions of the module test the same thing.\<close>

lemma truthy_guard:
  "(truthy v \<and> typeof v = ''object'') = (v \<noteq> Null \<and> typeof v = ''object'')"
  by (cases v) simp_all

lemma js_get_Obj:
  "js_get (Obj c ps pr) k =
     Inr (case lookup (Obj c ps pr) k of Some x \<Rightarrow> x | None \<Rightarrow> Undefined)"
  by (simp add: js_get_def)

lemma isValid_Obj:
  "isValid (Obj c ps pr) k requireDefined =
     Inr (case lookup (Obj c ps pr) k of
            Some x \<Rightarrow> \<not> requireDefined \<or> x \<noteq> Undefined
          | None \<Rightarrow> False)"
  by (simp add: isValid_def js_get_def split: option.split)

text \<open>
  The callback raises nothing: \<^verbatim>\<open>in\<close> and \<^verbatim>\<open>[]\<close> are applied to a structured pointer only.
  Its value is the property, or \<open>orElse\<close>.
\<close>

lemma walk_step_value:
  "walk_step root orElse requireDefined acc k idx =
     Inr (let ptr = (if idx = 0 then root else acc) in
          if ptr \<noteq> Null \<and> typeof ptr = ''object''
          then (case lookup ptr k of
                  Some x \<Rightarrow> if requireDefined \<and> x = Undefined then orElse else x
                | None \<Rightarrow> orElse)
          else orElse)"
proof (cases "(if idx = 0 then root else acc) \<noteq> Null
    \<and> typeof (if idx = 0 then root else acc) = ''object''")
  case True
  then obtain c ps pr where "(if idx = 0 then root else acc) = Obj c ps pr"
    using structured_iff by blast
  with True show ?thesis
    unfolding walk_step_def Let_def
    by (simp only: isValid_Obj js_get_Obj split: option.split) (auto split: option.split)
next
  case False
  then show ?thesis
    unfolding walk_step_def Let_def by auto
qed

lemma reduce_from_total:
  "\<exists>v. reduce_from (walk_step root orElse requireDefined) segs idx acc = Inr v"
  by (induction segs arbitrary: idx acc) (simp_all add: walk_step_value)

lemma getOrElse_total: "\<exists>v. getOrElse root dotPath orElse requireDefined = Inr v"
  using reduce_from_total by (simp add: getOrElse_def reduce_def)

lemma reduce_from_snoc:
  "reduce_from f (xs @ [x]) idx acc =
     (case reduce_from f xs idx acc of
        Inl e \<Rightarrow> Inl e
      | Inr a \<Rightarrow> f a x (idx + length xs))"
  by (induction xs arbitrary: idx acc) (simp_all split: sum.split)

text \<open>A path that is walked ends with the callback at its last segment.\<close>

lemma getOrElse_walk:
  "dotPath \<noteq> [] \<Longrightarrow> split_dot dotPath = segs @ [k] \<Longrightarrow>
   getOrElse root dotPath d rd =
     (case reduce (walk_step root d rd) segs d of
        Inl e \<Rightarrow> Inl e
      | Inr acc \<Rightarrow> walk_step root d rd acc k (length segs))"
  by (simp add: getOrElse_def reduce_def reduce_from_snoc split: sum.split)

text \<open>
  After a failed segment the accumulator is \<open>orElse\<close>, and the later segments are tested
  against it: a default that is not structured stays the result.
\<close>

lemma walk_stays_at_primitive_default:
  "\<not> (orElse \<noteq> Null \<and> typeof orElse = ''object'') \<Longrightarrow>
   reduce_from (walk_step root orElse requireDefined) segs (Suc idx) orElse = Inr orElse"
  by (induction segs arbitrary: idx) (auto simp: walk_step_value)

text \<open>
  With such a default, \<^verbatim>\<open>a.b.c\<close> is the default when the root is not structured, has no
  \<^verbatim>\<open>a\<close>, or has an \<^verbatim>\<open>a\<close> that is not structured.
\<close>

lemma getOrElse_abc_primitive_default:
  assumes "\<not> (orElse \<noteq> Null \<and> typeof orElse = ''object'')"
    and "\<not> (root \<noteq> Null \<and> typeof root = ''object'') \<or> lookup root ''a'' = None
         \<or> (\<exists>x. lookup root ''a'' = Some x \<and> \<not> (x \<noteq> Null \<and> typeof x = ''object''))"
  shows "getOrElse root ''a.b.c'' orElse False = Inr orElse"
  using assms
  by (auto simp: getOrElse_def reduce_def walk_step_value Let_def split: option.splits)

text \<open>The two branches of the callback.\<close>

lemma walk_step_passes:
  assumes "(if idx = 0 then root else acc) = ptr"
    and "ptr \<noteq> Null \<and> typeof ptr = ''object''" and "isValid ptr k rd = Inr True"
  shows "walk_step root d rd acc k idx = js_get ptr k"
  using assms by (simp add: walk_step_def Let_def)

lemma walk_step_fails:
  assumes "(if idx = 0 then root else acc) = ptr"
    and "\<not> (ptr \<noteq> Null \<and> typeof ptr = ''object'' \<and> isValid ptr k rd = Inr True)"
  shows "walk_step root d rd acc k idx = Inr d"
proof (cases "ptr \<noteq> Null \<and> typeof ptr = ''object''")
  case True
  then obtain c ps pr where "ptr = Obj c ps pr"
    using structured_iff by blast
  with assms True show ?thesis
    by (auto simp: walk_step_def Let_def isValid_Obj split: option.splits)
next
  case False
  with assms show ?thesis
    by (auto simp: walk_step_def Let_def)
qed

text \<open>A walk that does not fail ends at the pointer its segments lead to, whatever the default.\<close>

lemma reduce_from_descend:
  "descend rd ptr segs = Some p \<Longrightarrow> segs \<noteq> [] \<Longrightarrow> (if idx = 0 then root else acc) = ptr \<Longrightarrow>
   reduce_from (walk_step root d rd) segs idx acc = Inr p"
proof (induction segs arbitrary: idx acc ptr)
  case Nil
  then show ?case by simp
next
  case (Cons k ks)
  from Cons.prems(1) have ok: "ptr \<noteq> Null \<and> typeof ptr = ''object''"
    and valid: "isValid ptr k rd = Inr True"
    by (auto split: if_splits)
  with Cons.prems(1) obtain v where v: "js_get ptr k = Inr v" and rest: "descend rd v ks = Some p"
    by (auto split: sum.splits)
  have step: "walk_step root d rd acc k idx = Inr v"
    using walk_step_passes[OF Cons.prems(3) ok valid] v by simp
  show ?case
  proof (cases "ks = []")
    case True
    with rest step show ?thesis by simp
  next
    case False
    have "reduce_from (walk_step root d rd) ks (Suc idx) v = Inr p"
      by (rule Cons.IH[OF rest False]) simp
    with step show ?thesis by simp
  qed
qed

text \<open>A walk that fails ends at the default when the default is not structured.\<close>

lemma reduce_from_descend_fails:
  "descend rd ptr segs = None \<Longrightarrow> (if idx = 0 then root else acc) = ptr \<Longrightarrow>
   \<not> (d \<noteq> Null \<and> typeof d = ''object'') \<Longrightarrow>
   reduce_from (walk_step root d rd) segs idx acc = Inr d"
proof (induction segs arbitrary: idx acc ptr)
  case Nil
  then show ?case by simp
next
  case (Cons k ks)
  show ?case
  proof (cases "ptr \<noteq> Null \<and> typeof ptr = ''object'' \<and> isValid ptr k rd = Inr True")
    case True
    then obtain c ps pr where "ptr = Obj c ps pr"
      using structured_iff by blast
    then obtain v where v: "js_get ptr k = Inr v"
      by (simp add: js_get_Obj)
    with Cons.prems(1) True have rest: "descend rd v ks = None"
      by simp
    have step: "walk_step root d rd acc k idx = Inr v"
      using walk_step_passes[OF Cons.prems(2)] True v by simp
    have "reduce_from (walk_step root d rd) ks (Suc idx) v = Inr d"
      by (rule Cons.IH[OF rest _ Cons.prems(3)]) simp
    with step show ?thesis by simp
  next
    case False
    have "walk_step root d rd acc k idx = Inr d"
      by (rule walk_step_fails[OF Cons.prems(2) False])
    then show ?thesis
      using walk_stays_at_primitive_default[OF Cons.prems(3)] by simp
  qed
qed

lemma split_dot_not_Nil: "split_dot s \<noteq> []"
  by (cases s) (auto split: list.splits)

lemma getOrElse_descend:
  assumes "\<not> (root \<noteq> Null \<and> typeof root = ''object'' \<and> dotPath = [])"
    and "descend rd root (split_dot dotPath) = Some v"
  shows "getOrElse root dotPath d rd = Inr v"
  using assms reduce_from_descend[of rd root "split_dot dotPath" v 0 root d d]
  by (auto simp: getOrElse_def reduce_def split_dot_not_Nil)

lemma getOrElse_descend_fails:
  assumes "\<not> (root \<noteq> Null \<and> typeof root = ''object'' \<and> dotPath = [])"
    and "descend rd root (split_dot dotPath) = None"
    and "\<not> (d \<noteq> Null \<and> typeof d = ''object'')"
  shows "getOrElse root dotPath d rd = Inr d"
  using assms reduce_from_descend_fails[of rd root "split_dot dotPath" 0 root d d]
  by (auto simp: getOrElse_def reduce_def)

text \<open>
  Segments that pass the definedness test pass the existence test, and lead to the same
  pointer; the converse holds when the pointer they lead to is structured.
\<close>

lemma descend_defined_exists:
  "descend True ptr segs = Some p \<Longrightarrow> descend False ptr segs = Some p"
proof (induction segs arbitrary: ptr)
  case Nil
  then show ?case by simp
next
  case (Cons k ks)
  from Cons.prems have ok: "ptr \<noteq> Null \<and> typeof ptr = ''object''"
    and valid: "isValid ptr k True = Inr True"
    by (auto split: if_splits)
  from ok obtain c ps pr where "ptr = Obj c ps pr"
    using structured_iff by blast
  with valid have "isValid ptr k False = Inr True"
    by (auto simp: isValid_Obj split: option.splits)
  with Cons ok valid show ?case
    by (auto split: sum.splits)
qed

lemma descend_start_structured:
  "descend rd v ks = Some p \<Longrightarrow> p \<noteq> Null \<and> typeof p = ''object'' \<Longrightarrow>
   v \<noteq> Null \<and> typeof v = ''object''"
  by (cases ks) (auto split: if_splits)

lemma descend_exists_defined:
  "descend False ptr segs = Some p \<Longrightarrow> p \<noteq> Null \<and> typeof p = ''object'' \<Longrightarrow>
   descend True ptr segs = Some p"
proof (induction segs arbitrary: ptr)
  case Nil
  then show ?case by simp
next
  case (Cons k ks)
  from Cons.prems(1) have ok: "ptr \<noteq> Null \<and> typeof ptr = ''object''"
    by (auto split: if_splits)
  then obtain c ps pr where ptr: "ptr = Obj c ps pr"
    using structured_iff by blast
  then obtain v where v: "js_get ptr k = Inr v"
    by (simp add: js_get_Obj)
  with Cons.prems(1) ok have rest: "descend False v ks = Some p"
    by (auto split: if_splits)
  have "v \<noteq> Null \<and> typeof v = ''object''"
    by (rule descend_start_structured[OF rest Cons.prems(2)])
  then have "v \<noteq> Undefined" by auto
  with v have "isValid ptr k True = Inr True"
    by (simp add: isValid_def)
  with ok v Cons.IH[OF rest Cons.prems(2)] show ?case
    by simp
qed

lemma map_array_Inr:
  "(\<And>x. x \<in> set xs \<Longrightarrow> f x = Inr (g x)) \<Longrightarrow> map_array f xs = Inr (map g xs)"
  by (induction xs) simp_all

lemma map_array_getOrElse:
  "map_array (\<lambda>p. getOrElse root p orElse rd) ps =
     Inr (map (\<lambda>p. projr (getOrElse root p orElse rd)) ps)"
proof (rule map_array_Inr)
  fix p
  obtain v where "getOrElse root p orElse rd = Inr v"
    using getOrElse_total by blast
  then show "getOrElse root p orElse rd = Inr (projr (getOrElse root p orElse rd))"
    by simp
qed

lemma multiPathsGetOrElse_find:
  "multiPathsGetOrElse root ps d =
     Inr (case find (\<lambda>v. v \<noteq> Undefined)
                 (map (\<lambda>p. projr (getOrElse root p Undefined True)) ps) of
            Some v \<Rightarrow> v
          | None \<Rightarrow> d)"
  unfolding multiPathsGetOrElse_def map_array_getOrElse find_array_def Let_def
  by (auto split: option.split dest: find_Some_iff[THEN iffD1])

lemma find_skips_undefined:
  "(\<And>p. p \<in> set ps \<Longrightarrow> g p = Undefined) \<Longrightarrow>
   find (\<lambda>v. v \<noteq> Undefined) (map g ps @ vs) = find (\<lambda>v. v \<noteq> Undefined) vs"
  by (induction ps) simp_all

lemma multiPathsGetOrElse_none:
  assumes "\<And>q. q \<in> set ps \<Longrightarrow> getOrElse root q Undefined True = Inr Undefined"
  shows "multiPathsGetOrElse root ps d = Inr d"
proof -
  let ?g = "\<lambda>p. projr (getOrElse root p Undefined True)"
  have "find (\<lambda>v. v \<noteq> Undefined) (map ?g ps @ []) = find (\<lambda>v. v \<noteq> Undefined) []"
    using assms by (intro find_skips_undefined) simp
  then show ?thesis
    by (simp add: multiPathsGetOrElse_find)
qed

lemma multiPathsGetOrElse_first:
  assumes "\<And>q. q \<in> set pre \<Longrightarrow> getOrElse root q Undefined True = Inr Undefined"
    and "getOrElse root p Undefined True = Inr v" and "v \<noteq> Undefined"
  shows "multiPathsGetOrElse root (pre @ p # post) d = Inr v"
proof -
  let ?g = "\<lambda>p. projr (getOrElse root p Undefined True)"
  have "find (\<lambda>v. v \<noteq> Undefined) (map ?g pre @ map ?g (p # post))
      = find (\<lambda>v. v \<noteq> Undefined) (map ?g (p # post))"
    using assms(1) by (intro find_skips_undefined) simp
  then show ?thesis
    using assms(2,3) by (simp add: multiPathsGetOrElse_find)
qed

lemma Object_call_not_string: "Object_call v \<noteq> Str s"
  by (cases v) (simp_all add: Object_call_def literal_def)

lemma getStringOr_never_string: "getStringOr root dotPath orElse \<noteq> Inr (Str s)"
  using Object_call_not_string by (auto simp: getStringOr_def split: sum.splits)

section \<open>The single-path resolver\<close>

text \<open>
  C1. Once the walk has failed at a segment the result should be the default, whatever
  the later segments are. The callback returns \<open>orElse\<close> at the failed segment, and
  \<^verbatim>\<open>reduce\<close> hands it to the next segment as the pointer: a default that is an object
  with the next key is walked into. \<^verbatim>\<open>getOrElse({}, 'a.b', {b: 7}, false)\<close> is \<open>7\<close>, and
  \<^verbatim>\<open>getOrElse({a: null}, 'a.b.c', {c: 1}, false)\<close> is \<open>1\<close>; neither is the default.
\<close>

theorem getOrElse_walks_into_default:
  "getOrElse (literal []) ''a.b'' (literal [(''b'', Num 7)]) False = Inr (Num 7)
   \<and> getOrElse (literal [(''a'', Null)]) ''a.b.c'' (literal [(''c'', Num 1)]) False = Inr (Num 1)"
  by (simp add: getOrElse_def reduce_def walk_step_value literal_def objectPrototype_def
      native_def)

text \<open>
  C2. The empty path splits into one empty segment. On a root that is a non-null
  \<^verbatim>\<open>'object'\<close> the empty path is the root itself, whatever the default and the flag; on
  any other root it is the default.
\<close>

theorem getOrElse_empty_path:
  "split_dot [] = [[]] \<and>
   getOrElse root [] orElse requireDefined =
     Inr (if root \<noteq> Null \<and> typeof root = ''object'' then root else orElse)"
  by (simp add: getOrElse_def reduce_def walk_step_value)

text \<open>
  C4, as stated, fails where the undefined key is not the last segment and where the path
  is empty: \<^verbatim>\<open>{a: undefined}\<close> has the key \<^verbatim>\<open>a\<close> with the value \<^verbatim>\<open>undefined\<close>, and
  \<^verbatim>\<open>getOrElse({a: undefined}, 'a.b', 0, false)\<close> is the default \<open>0\<close>, not \<^verbatim>\<open>undefined\<close>;
  \<^verbatim>\<open>{'': undefined}\<close> at the empty path is the root itself under both policies.
\<close>

theorem definedness_not_at_every_segment:
  "lookup (literal [(''a'', Undefined)]) ''a'' = Some Undefined
   \<and> getOrElse (literal [(''a'', Undefined)]) ''a.b'' (Num 0) False = Inr (Num 0)
   \<and> lookup (literal [([], Undefined)]) [] = Some Undefined
   \<and> getOrElse (literal [([], Undefined)]) [] (Num 0) True = Inr (literal [([], Undefined)])
   \<and> getOrElse (literal [([], Undefined)]) [] (Num 0) False = Inr (literal [([], Undefined)])"
  by (simp add: getOrElse_def reduce_def walk_step_value literal_def objectPrototype_def
      native_def)

text \<open>
  C4, amended. Definedness is stronger than existence. At every segment, on a structured
  pointer that has the key with the value \<^verbatim>\<open>undefined\<close>, the callback yields the default
  under \<open>requireDefined = True\<close> and \<^verbatim>\<open>undefined\<close> itself under \<open>requireDefined = False\<close>.
  So does \<open>getOrElse\<close> when that segment is the last one of a non-empty path and every
  segment before it is a key present on a structured pointer, so that the walk has not
  failed when it reaches \<open>ptr\<close>. And on a structured pointer, a key that passes the
  definedness test passes the existence test.
\<close>

theorem definedness_stronger_than_existence:
  "((if idx = 0 then root else acc) = ptr
      \<and> ptr \<noteq> Null \<and> typeof ptr = ''object'' \<and> lookup ptr k = Some Undefined \<longrightarrow>
    walk_step root d True acc k idx = Inr d \<and> walk_step root d False acc k idx = Inr Undefined)
   \<and> (dotPath \<noteq> [] \<and> split_dot dotPath = segs @ [k] \<and> descend False root segs = Some ptr
      \<and> ptr \<noteq> Null \<and> typeof ptr = ''object'' \<and> lookup ptr k = Some Undefined \<longrightarrow>
    getOrElse root dotPath d True = Inr d \<and> getOrElse root dotPath d False = Inr Undefined)
   \<and> (p \<noteq> Null \<and> typeof p = ''object'' \<and> isValid p field True = Inr True \<longrightarrow>
        isValid p field False = Inr True)"
proof (intro conjI impI)
  assume a: "(if idx = 0 then root else acc) = ptr
      \<and> ptr \<noteq> Null \<and> typeof ptr = ''object'' \<and> lookup ptr k = Some Undefined"
  then show "walk_step root d True acc k idx = Inr d"
    by (simp add: walk_step_value Let_def)
  from a show "walk_step root d False acc k idx = Inr Undefined"
    by (simp add: walk_step_value Let_def)
next
  assume a: "dotPath \<noteq> [] \<and> split_dot dotPath = segs @ [k] \<and> descend False root segs = Some ptr
      \<and> ptr \<noteq> Null \<and> typeof ptr = ''object'' \<and> lookup ptr k = Some Undefined"
  have reach: "descend rd root segs = Some ptr" for rd
    using a descend_exists_defined[of root segs ptr] by (cases rd) simp_all
  have step: "walk_step root d rd acc k (length segs) = Inr (if rd then d else Undefined)"
    if "(if segs = [] then root else acc) = ptr" for rd acc
    using a that by (simp add: walk_step_value Let_def)
  have res: "getOrElse root dotPath d rd = Inr (if rd then d else Undefined)" for rd
  proof (cases "segs = []")
    case True
    with reach[of rd] have "root = ptr" by simp
    with True a step[of d rd] show ?thesis
      by (simp add: getOrElse_walk[of dotPath segs k] reduce_def)
  next
    case False
    have "reduce_from (walk_step root d rd) segs 0 d = Inr ptr"
      by (rule reduce_from_descend[OF reach False]) simp
    with False a step[of ptr rd] show ?thesis
      by (simp add: getOrElse_walk[of dotPath segs k] reduce_def)
  qed
  from res[of True] show "getOrElse root dotPath d True = Inr d" by simp
  from res[of False] show "getOrElse root dotPath d False = Inr Undefined" by simp
next
  assume a: "p \<noteq> Null \<and> typeof p = ''object'' \<and> isValid p field True = Inr True"
  then obtain c ps pr where p: "p = Obj c ps pr"
    using structured_iff by blast
  with a show "isValid p field False = Inr True"
    by (simp only: isValid_Obj split: option.splits) (auto split: option.splits)
qed

theorem definedness_stronger_than_existence_witness:
  "walk_step (literal [(''a'', literal [(''b'', Undefined)])]) (Num 0) True
       (literal [(''b'', Undefined)]) ''b'' 1 = Inr (Num 0)
   \<and> walk_step (literal [(''a'', literal [(''b'', Undefined)])]) (Num 0) False
       (literal [(''b'', Undefined)]) ''b'' 1 = Inr Undefined
   \<and> descend False (literal [(''a'', literal [(''b'', Undefined)])]) [''a'']
       = Some (literal [(''b'', Undefined)])
   \<and> getOrElse (literal [(''a'', literal [(''b'', Undefined)])]) ''a.b'' (Num 0) True = Inr (Num 0)
   \<and> getOrElse (literal [(''a'', literal [(''b'', Undefined)])]) ''a.b'' (Num 0) False
       = Inr Undefined
   \<and> isValid (literal [(''b'', Num 1)]) ''b'' True = Inr True
   \<and> isValid (literal [(''b'', Num 1)]) ''b'' False = Inr True"
proof -
  let ?root = "literal [(''a'', literal [(''b'', Undefined)])]"
  let ?ptr = "literal [(''b'', Undefined)]"
  have h0: "(if (1::nat) = 0 then ?root else ?ptr) = ?ptr"
    by simp
  have h1: "''a.b'' \<noteq> [] \<and> split_dot ''a.b'' = [''a''] @ [''b'']"
    by simp
  have h2: "descend False ?root [''a''] = Some ?ptr"
    by (simp add: literal_def isValid_def js_get_def)
  have h3: "?ptr \<noteq> Null \<and> typeof ?ptr = ''object'' \<and> lookup ?ptr ''b'' = Some Undefined"
    by (simp add: literal_def)
  have h4: "literal [(''b'', Num 1)] \<noteq> Null \<and> typeof (literal [(''b'', Num 1)]) = ''object''
            \<and> isValid (literal [(''b'', Num 1)]) ''b'' True = Inr True"
    by (simp add: literal_def isValid_def js_get_def)
  from definedness_stronger_than_existence
    [where idx = 1 and root = ?root and acc = ?ptr and ptr = ?ptr and k = "''b''"
       and d = "Num 0" and dotPath = "''a.b''" and segs = "[''a'']"
       and p = "literal [(''b'', Num 1)]" and field = "''b''"]
    h0 h1 h2 h3 h4
  show ?thesis by blast
qed

text \<open>
  C6. The three scenarios of the existence policy: \<^verbatim>\<open>{a: {b: 5}}\<close> at \<^verbatim>\<open>a.b\<close> is \<open>5\<close> and
  at \<^verbatim>\<open>a.c\<close> the default \<open>0\<close>; \<^verbatim>\<open>{a: null}\<close> at \<^verbatim>\<open>a.b\<close> is the default \<open>0\<close>.
\<close>

theorem getOrElse_scenarios:
  "getOrElse (literal [(''a'', literal [(''b'', Num 5)])]) ''a.b'' (Num 0) False = Inr (Num 5)
   \<and> getOrElse (literal [(''a'', literal [(''b'', Num 5)])]) ''a.c'' (Num 0) False = Inr (Num 0)
   \<and> getOrElse (literal [(''a'', Null)]) ''a.b'' (Num 0) False = Inr (Num 0)"
  by (simp add: getOrElse_def reduce_def walk_step_value literal_def objectPrototype_def
      native_def)

text \<open>
  C7. \<open>getOrElse\<close> raises nothing (lemma \<open>getOrElse_total\<close>), but a missing key, a
  \<^verbatim>\<open>null\<close> intermediate or a value of the wrong shape does not always yield the default:
  the defect of C1. \<^verbatim>\<open>getOrElse({}, 'x.y', {y: 2}, true)\<close> has no key \<^verbatim>\<open>x\<close> and is \<open>2\<close>;
  \<^verbatim>\<open>getOrElse({a: 5}, 'a.b.c', {c: 1}, false)\<close> has a number at \<^verbatim>\<open>a\<close> and is \<open>1\<close>.
  With a default that is not structured the failed walk does yield the default (lemma
  \<open>getOrElse_descend_fails\<close>).
\<close>

theorem getOrElse_missing_data_not_default:
  "getOrElse (literal []) ''x.y'' (literal [(''y'', Num 2)]) True = Inr (Num 2)
   \<and> getOrElse (literal [(''a'', Num 5)]) ''a.b.c'' (literal [(''c'', Num 1)]) False
       = Inr (Num 1)"
  by (simp add: getOrElse_def reduce_def walk_step_value literal_def objectPrototype_def
      native_def)

section \<open>The multi-path resolver\<close>

text \<open>
  C3, as stated for a sequence of any length, fails in its swap clause: exchanging two
  paths whose values are defined and differ changes nothing when an earlier path is
  defined. In \<^verbatim>\<open>{x: 1, c: 3, f: 37}\<close> the paths \<^verbatim>\<open>c\<close> and \<^verbatim>\<open>f\<close> resolve to \<open>3\<close> and \<open>37\<close>,
  and both \<^verbatim>\<open>['x', 'c', 'f']\<close> and \<^verbatim>\<open>['x', 'f', 'c']\<close> give \<open>1\<close>.
\<close>

theorem swap_behind_defined_path_unchanged:
  "getOrElse (literal [(''x'', Num 1), (''c'', Num 3), (''f'', Num 37)]) ''c'' Undefined True
     = Inr (Num 3)
   \<and> getOrElse (literal [(''x'', Num 1), (''c'', Num 3), (''f'', Num 37)]) ''f'' Undefined True
     = Inr (Num 37)
   \<and> multiPathsGetOrElse (literal [(''x'', Num 1), (''c'', Num 3), (''f'', Num 37)])
       [''x'', ''c'', ''f''] (Num 0) = Inr (Num 1)
   \<and> multiPathsGetOrElse (literal [(''x'', Num 1), (''c'', Num 3), (''f'', Num 37)])
       [''x'', ''f'', ''c''] (Num 0) = Inr (Num 1)"
  by (simp add: multiPathsGetOrElse_def find_array_def getOrElse_def reduce_def
      walk_step_value literal_def objectPrototype_def native_def)

text \<open>
  C3, amended. \<open>multiPathsGetOrElse\<close> returns the caller's default when every path
  resolves to \<^verbatim>\<open>undefined\<close> under the definedness policy, and the value of the first path
  that does not otherwise. Exchanging two paths whose values are defined and differ
  changes the result when only undefined paths stand before the first of them, as in a
  list of two; and the result is \<^verbatim>\<open>undefined\<close> only when the caller's default is.
\<close>

theorem multiPathsGetOrElse_first_defined:
  "((\<forall>q \<in> set ps. getOrElse root q Undefined True = Inr Undefined) \<longrightarrow>
      multiPathsGetOrElse root ps d = Inr d)
   \<and> ((\<forall>q \<in> set pre. getOrElse root q Undefined True = Inr Undefined)
        \<and> getOrElse root p Undefined True = Inr v \<and> v \<noteq> Undefined \<longrightarrow>
      multiPathsGetOrElse root (pre @ p # post) d = Inr v)
   \<and> ((\<forall>q \<in> set pre. getOrElse root q Undefined True = Inr Undefined)
        \<and> getOrElse root pa Undefined True = Inr va \<and> getOrElse root pb Undefined True = Inr vb
        \<and> va \<noteq> Undefined \<and> vb \<noteq> Undefined \<and> va \<noteq> vb \<longrightarrow>
      multiPathsGetOrElse root (pre @ pa # mid @ pb # post) d
        \<noteq> multiPathsGetOrElse root (pre @ pb # mid @ pa # post) d)
   \<and> (multiPathsGetOrElse root ps d = Inr Undefined \<longrightarrow> d = Undefined)"
proof (intro conjI impI)
  assume "\<forall>q \<in> set ps. getOrElse root q Undefined True = Inr Undefined"
  then show "multiPathsGetOrElse root ps d = Inr d"
    by (intro multiPathsGetOrElse_none) simp
next
  assume "(\<forall>q \<in> set pre. getOrElse root q Undefined True = Inr Undefined)
        \<and> getOrElse root p Undefined True = Inr v \<and> v \<noteq> Undefined"
  then show "multiPathsGetOrElse root (pre @ p # post) d = Inr v"
    by (intro multiPathsGetOrElse_first) simp_all
next
  assume a: "(\<forall>q \<in> set pre. getOrElse root q Undefined True = Inr Undefined)
        \<and> getOrElse root pa Undefined True = Inr va \<and> getOrElse root pb Undefined True = Inr vb
        \<and> va \<noteq> Undefined \<and> vb \<noteq> Undefined \<and> va \<noteq> vb"
  then have "multiPathsGetOrElse root (pre @ pa # mid @ pb # post) d = Inr va"
    by (intro multiPathsGetOrElse_first) simp_all
  moreover from a have "multiPathsGetOrElse root (pre @ pb # mid @ pa # post) d = Inr vb"
    by (intro multiPathsGetOrElse_first) simp_all
  ultimately show "multiPathsGetOrElse root (pre @ pa # mid @ pb # post) d
        \<noteq> multiPathsGetOrElse root (pre @ pb # mid @ pa # post) d"
    using a by simp
next
  assume "multiPathsGetOrElse root ps d = Inr Undefined"
  then show "d = Undefined"
    by (auto simp: multiPathsGetOrElse_find split: option.splits
        dest: find_Some_iff[THEN iffD1])
qed

theorem multiPathsGetOrElse_first_defined_witness:
  "getOrElse (literal [(''c'', Num 3)]) ''temp.celsius'' Undefined True = Inr Undefined
   \<and> getOrElse (literal [(''c'', Num 3)]) ''c'' Undefined True = Inr (Num 3)
   \<and> multiPathsGetOrElse (literal [(''c'', Num 3)]) [''temp.celsius'', ''c''] (Num 0)
       = Inr (Num 3)
   \<and> multiPathsGetOrElse (literal []) [''temp.celsius'', ''c''] (Num (- 1)) = Inr (Num (- 1))
   \<and> multiPathsGetOrElse (literal [(''c'', Num 3), (''f'', Num 37)]) [''c'', ''f''] (Num 0)
       \<noteq> multiPathsGetOrElse (literal [(''c'', Num 3), (''f'', Num 37)]) [''f'', ''c''] (Num 0)
   \<and> multiPathsGetOrElse (literal []) [''c''] Undefined = Inr Undefined"
proof -
  note ev = getOrElse_def reduce_def walk_step_value literal_def objectPrototype_def native_def
  let ?cf = "literal [(''c'', Num 3), (''f'', Num 37)]"
  have h1: "getOrElse (literal [(''c'', Num 3)]) ''temp.celsius'' Undefined True = Inr Undefined"
    by (simp add: ev)
  have h2: "getOrElse (literal [(''c'', Num 3)]) ''c'' Undefined True = Inr (Num 3)"
    by (simp add: ev)
  have h3: "\<forall>q \<in> set [''temp.celsius'', ''c'']. getOrElse (literal []) q Undefined True
      = Inr Undefined"
    by (simp add: ev)
  have h4: "getOrElse ?cf ''c'' Undefined True = Inr (Num 3)"
    by (simp add: ev)
  have h5: "getOrElse ?cf ''f'' Undefined True = Inr (Num 37)"
    by (simp add: ev)
  have h6: "\<forall>q \<in> set [''c'']. getOrElse (literal []) q Undefined True = Inr Undefined"
    by (simp add: ev)
  have r1: "multiPathsGetOrElse (literal [(''c'', Num 3)]) ([''temp.celsius''] @ ''c'' # [])
      (Num 0) = Inr (Num 3)"
    using multiPathsGetOrElse_first_defined
      [where root = "literal [(''c'', Num 3)]" and pre = "[''temp.celsius'']" and p = "''c''"
         and v = "Num 3" and post = "[]" and d = "Num 0"] h1 h2
    by simp
  have r2: "multiPathsGetOrElse (literal []) [''temp.celsius'', ''c''] (Num (- 1))
      = Inr (Num (- 1))"
    using multiPathsGetOrElse_first_defined
      [where ps = "[''temp.celsius'', ''c'']" and root = "literal []" and d = "Num (- 1)"] h3
    by blast
  have r3: "multiPathsGetOrElse ?cf ([] @ ''c'' # [] @ ''f'' # []) (Num 0)
       \<noteq> multiPathsGetOrElse ?cf ([] @ ''f'' # [] @ ''c'' # []) (Num 0)"
    using multiPathsGetOrElse_first_defined
      [where root = ?cf and pre = "[]" and pa = "''c''" and va = "Num 3" and pb = "''f''"
         and vb = "Num 37" and mid = "[]" and post = "[]" and d = "Num 0"] h4 h5
    by simp
  have r4: "multiPathsGetOrElse (literal []) [''c''] Undefined = Inr Undefined"
    using multiPathsGetOrElse_first_defined
      [where ps = "[''c'']" and root = "literal []" and d = Undefined] h6
    by blast
  from h1 h2 r1 r2 r3 r4 show ?thesis by simp
qed

text \<open>
  C10. With no path at all \<open>multiPathsGetOrElse\<close> returns the caller's default, and
  raises nothing.
\<close>

theorem multiPathsGetOrElse_no_paths: "multiPathsGetOrElse root [] orElse = Inr orElse"
  by (simp add: multiPathsGetOrElse_def find_array_def)

section \<open>The exported functions\<close>

text \<open>
  C9. On an array of paths the default export and \<open>getDefinedOrElse\<close> are the same
  function, \<open>multiPathsGetOrElse\<close>, which resolves under the definedness policy: for
  \<^verbatim>\<open>{a: undefined}\<close> the default export gives the default \<open>0\<close> on \<^verbatim>\<open>['a']\<close> and
  \<^verbatim>\<open>undefined\<close> on \<^verbatim>\<open>'a'\<close>.
\<close>

theorem multi_path_dispatch_agrees:
  "getOrElse_default root (Paths ps) orElse = getDefinedOrElse root (Paths ps) orElse
   \<and> getOrElse_default root (Paths ps) orElse = multiPathsGetOrElse root ps orElse
   \<and> getOrElse_default (literal [(''a'', Undefined)]) (Paths [''a'']) (Num 0) = Inr (Num 0)
   \<and> getOrElse_default (literal [(''a'', Undefined)]) (Path ''a'') (Num 0) = Inr Undefined"
  by (simp add: getOrElse_default_def getDefinedOrElse_def multiPathsGetOrElse_def
      find_array_def getOrElse_def reduce_def walk_step_value literal_def)

text \<open>
  C5. \<open>getStringOr\<close> is declared to return a \<^verbatim>\<open>string\<close> and should coerce with
  \<^verbatim>\<open>String\<close>; it calls \<^verbatim>\<open>Object\<close>, as \<^verbatim>\<open>getObjectOr\<close> does. For
  \<^verbatim>\<open>{wind: {direction: 'N'}}\<close> at \<^verbatim>\<open>wind.direction\<close> it returns a String object, whose
  \<^verbatim>\<open>typeof\<close> is \<^verbatim>\<open>'object'\<close>, not the string \<^verbatim>\<open>'N'\<close>.
\<close>

theorem getStringOr_returns_object:
  "getStringOr (literal [(''wind'', literal [(''direction'', Str ''N'')])])
       (Path ''wind.direction'') Undefined
     = Inr (Obj (StringData ''N'') [(''0'', Str ''N''), (''length'', Num 1)] stringPrototype)
   \<and> typeof (Obj (StringData ''N'') [(''0'', Str ''N''), (''length'', Num 1)] stringPrototype)
       = ''object''"
  by (simp add: getStringOr_def getDefinedOrElse_def getOrElse_def reduce_def walk_step_value
      literal_def objectPrototype_def native_def Object_call_def decimal.simps)

end
